theory Spec2Isabelle
  imports Complex_Main
begin

section \<open>The animation core of \<^verbatim>\<open>manim/animation/animation.py\<close>\<close>

text \<open>
  The module defines the class \<^verbatim>\<open>Animation\<close>, the function \<^verbatim>\<open>prepare_animation\<close>
  and the subclass \<^verbatim>\<open>Wait\<close>. Its collaborators (\<^verbatim>\<open>Mobject\<close>, \<^verbatim>\<open>OpenGLMobject\<close>,
  the scene, the logger, the builders of \<^verbatim>\<open>.animate\<close> chains) live in other modules.

  Conventions of the embedding:
  \<^item> A Python \<^verbatim>\<open>float\<close> is read as a real number and \<^verbatim>\<open>int\<close> as an integer: the
    arithmetic is exact, rounding of IEEE doubles is not part of the model.
  \<^item> Objects with identity (mobjects, scenes) are references. A call that the module
    makes on a collaborator is a value of type \<open>call\<close>; performing it appends it to
    the trace of the state and changes the world by the collaborator's \<open>effect\<close>,
    which is a parameter. The hook \<^verbatim>\<open>interpolate_submobject\<close>, which the base class
    leaves empty and subclasses override, is such a call.
  \<^item> \<^verbatim>\<open>raise TypeError(msg)\<close> is the result \<open>Inl (TypeError msg)\<close>.
\<close>

subsection \<open>Data\<close>

type_synonym ref = nat

datatype error = TypeError string

datatype call =
    Logger_debug string
  | Logger_error string
  | Mobject_new ref
  | Mobject_copy ref ref
  | Suspend_updating ref
  | Resume_updating ref
  | Mobject_update ref real
  | Scene_remove ref ref
  | Interpolate_submobject ref ref real

text \<open>
  The collaborators. \<open>family_members_with_points m w\<close> is the list that
  \<^verbatim>\<open>m.family_members_with_points()\<close> returns in world \<open>w\<close>; \<open>new_ref w\<close> is the reference of
  the object that the next \<^verbatim>\<open>Mobject()\<close> or \<^verbatim>\<open>copy()\<close> creates; \<open>effect c w\<close> is the world
  after call \<open>c\<close>.
\<close>

record 'w env =
  family_members_with_points :: "ref \<Rightarrow> 'w \<Rightarrow> ref list"
  new_ref :: "'w \<Rightarrow> ref"
  effect :: "call \<Rightarrow> 'w \<Rightarrow> 'w"

record 'w state =
  world :: 'w
  trace :: "call list"

text \<open>The attributes that \<^verbatim>\<open>Animation.__init__\<close> sets.\<close>

record animation =
  run_time :: real
  rate_func :: "real \<Rightarrow> real"
  name :: "string option"
  remover :: bool
  suspend_mobject_updating :: bool
  lag_ratio :: real
  starting_mobject :: ref
  mobject :: ref

text \<open>\<^verbatim>\<open>Wait\<close> is a subclass: its instances carry three more attributes.\<close>

record wait = animation +
  duration :: real
  stop_condition :: "(unit \<Rightarrow> bool) option"
  is_static_wait :: bool

text \<open>What the caller may pass as \<^verbatim>\<open>mobject\<close> to \<^verbatim>\<open>Animation.__init__\<close>.\<close>

datatype target =
    None_target
  | Mobject_target ref
  | OpenGLMobject_target ref
  | Other_target

text \<open>
  What the caller may pass to \<^verbatim>\<open>prepare_animation\<close>: an instance of
  \<^verbatim>\<open>mobject._AnimationBuilder\<close>, of \<^verbatim>\<open>opengl_mobject._AnimationBuilder\<close>, of \<^verbatim>\<open>Animation\<close>,
  or anything else, of which only its \<^verbatim>\<open>str\<close> matters. The three classes have no common
  instance.
\<close>

datatype ('a, 'b, 'c) anim_input =
    Builder_input 'b
  | OpenGL_builder_input 'c
  | Animation_input 'a
  | Other_input string

subsection \<open>Constants\<close>

definition DEFAULT_ANIMATION_RUN_TIME :: real where
  "DEFAULT_ANIMATION_RUN_TIME = 1"

definition DEFAULT_ANIMATION_LAG_RATIO :: real where
  "DEFAULT_ANIMATION_LAG_RATIO = 0"

subsection \<open>Calls on collaborators\<close>

definition perform :: "'w env \<Rightarrow> call \<Rightarrow> 'w state \<Rightarrow> 'w state" where
  "perform env c st = st\<lparr>world := effect env c (world st), trace := trace st @ [c]\<rparr>"

definition Mobject_init :: "'w env \<Rightarrow> 'w state \<Rightarrow> ref \<times> 'w state" where
  "Mobject_init env st =
     (let r = new_ref env (world st) in (r, perform env (Mobject_new r) st))"

subsection \<open>\<^verbatim>\<open>Animation\<close>\<close>

definition isinstance_Mobject :: "target \<Rightarrow> bool" where
  "isinstance_Mobject t = (case t of Mobject_target r \<Rightarrow> True | _ \<Rightarrow> False)"

definition isinstance_OpenGLMobject :: "target \<Rightarrow> bool" where
  "isinstance_OpenGLMobject t = (case t of OpenGLMobject_target r \<Rightarrow> True | _ \<Rightarrow> False)"

definition typecheck_input :: "'w env \<Rightarrow> target \<Rightarrow> 'w state \<Rightarrow> error + 'w state" where
  "typecheck_input env mob st =
     (if mob = None_target then Inr (perform env (Logger_debug ''Animation with empty mobject'') st)
      else if \<not> isinstance_Mobject mob \<and> \<not> isinstance_OpenGLMobject mob
        then Inl (TypeError ''Animation only works on Mobjects'')
      else Inr st)"

text \<open>
  \<^verbatim>\<open>__init__\<close>. \<open>kwargs\<close> are the names of the extra keyword arguments, \<open>has_CONFIG\<close> is
  \<^verbatim>\<open>hasattr(self, "CONFIG")\<close>. The mobject of a target that passed the type check is
  its reference; \<^verbatim>\<open>None\<close> is replaced by a new \<^verbatim>\<open>Mobject()\<close>.
\<close>

definition Animation_init ::
  "'w env \<Rightarrow> target \<Rightarrow> real \<Rightarrow> real \<Rightarrow> (real \<Rightarrow> real) \<Rightarrow> string option \<Rightarrow> bool \<Rightarrow> bool \<Rightarrow>
   string list \<Rightarrow> bool \<Rightarrow> 'w state \<Rightarrow> error + (animation \<times> 'w state)" where
  "Animation_init env mob lag run rf nm rem susp kwargs has_CONFIG st =
     (case typecheck_input env mob st of
        Inl e \<Rightarrow> Inl e
      | Inr st1 \<Rightarrow>
          (let (start, st2) = Mobject_init env st1;
               (m, st3) = (case mob of
                             Mobject_target r \<Rightarrow> (r, st2)
                           | OpenGLMobject_target r \<Rightarrow> (r, st2)
                           | _ \<Rightarrow> Mobject_init env st2);
               st4 = (if kwargs \<noteq> []
                      then perform env (Logger_debug ''Animation received extra kwargs: %s'') st3
                      else st3);
               st5 = (if has_CONFIG
                      then perform env (Logger_error
                             ''CONFIG has been removed from ManimCommunity. Please use keyword arguments instead.'') st4
                      else st4)
           in Inr (\<lparr>run_time = run, rate_func = rf, name = nm, remover = rem,
                     suspend_mobject_updating = susp, lag_ratio = lag,
                     starting_mobject = start, mobject = m\<rparr>, st5)))"

definition create_starting_mobject ::
  "'w env \<Rightarrow> 'a animation_scheme \<Rightarrow> 'w state \<Rightarrow> ref \<times> 'w state" where
  "create_starting_mobject env self st =
     (let r = new_ref env (world st) in (r, perform env (Mobject_copy (mobject self) r) st))"

definition get_all_mobjects :: "'a animation_scheme \<Rightarrow> ref \<times> ref" where
  "get_all_mobjects self = (mobject self, starting_mobject self)"

text \<open>
  \<open>get_all_mobjects\<close> returns a pair, so \<^verbatim>\<open>zip(*[...])\<close> over the families of its members
  is the zip of two lists; it stops at the end of the shorter one.
\<close>

definition get_all_families_zipped ::
  "'w env \<Rightarrow> 'a animation_scheme \<Rightarrow> 'w state \<Rightarrow> (ref \<times> ref) list" where
  "get_all_families_zipped env self st =
     (let (mob, start) = get_all_mobjects self
      in zip (family_members_with_points env mob (world st))
             (family_members_with_points env start (world st)))"

text \<open>\<^verbatim>\<open>m is not self.mobject\<close> compares identities, that is, references.\<close>

definition get_all_mobjects_to_update :: "'a animation_scheme \<Rightarrow> ref list" where
  "get_all_mobjects_to_update self =
     (let (mob, start) = get_all_mobjects self
      in filter (\<lambda>m. m \<noteq> mobject self) [mob, start])"

definition update_mobjects :: "'w env \<Rightarrow> 'a animation_scheme \<Rightarrow> real \<Rightarrow> 'w state \<Rightarrow> 'w state" where
  "update_mobjects env self dt st =
     fold (\<lambda>mob. perform env (Mobject_update mob dt)) (get_all_mobjects_to_update self) st"

definition get_sub_alpha :: "'a animation_scheme \<Rightarrow> real \<Rightarrow> int \<Rightarrow> int \<Rightarrow> real" where
  "get_sub_alpha self alpha index num_submobjects =
     (let lag = lag_ratio self;
          full_length = real_of_int (num_submobjects - 1) * lag + 1;
          value = alpha * full_length;
          lower = real_of_int index * lag
      in min (max (value - lower) 0) 1)"

definition interpolate_submobject ::
  "'w env \<Rightarrow> ref \<Rightarrow> ref \<Rightarrow> real \<Rightarrow> 'w state \<Rightarrow> 'w state" where
  "interpolate_submobject env submobject starting_submobject alpha st =
     perform env (Interpolate_submobject submobject starting_submobject alpha) st"

text \<open>The \<^verbatim>\<open>for\<close> loop of \<^verbatim>\<open>interpolate_mobject\<close> over \<^verbatim>\<open>enumerate(families)\<close>.\<close>

fun interpolate_mobject_loop ::
  "'w env \<Rightarrow> 'a animation_scheme \<Rightarrow> real \<Rightarrow> int \<Rightarrow> (nat \<times> ref \<times> ref) list \<Rightarrow> 'w state \<Rightarrow> 'w state" where
  "interpolate_mobject_loop env self alpha n [] st = st"
| "interpolate_mobject_loop env self alpha n ((i, submob, start) # rest) st =
     (let sub_alpha = get_sub_alpha self alpha (int i) n
      in interpolate_mobject_loop env self alpha n rest
           (interpolate_submobject env submob start sub_alpha st))"

definition interpolate_mobject ::
  "'w env \<Rightarrow> 'a animation_scheme \<Rightarrow> real \<Rightarrow> 'w state \<Rightarrow> 'w state" where
  "interpolate_mobject env self alpha st =
     (let families = get_all_families_zipped env self st
      in interpolate_mobject_loop env self alpha (int (length families))
           (enumerate 0 families) st)"

definition interpolate :: "'w env \<Rightarrow> 'a animation_scheme \<Rightarrow> real \<Rightarrow> 'w state \<Rightarrow> 'w state" where
  "interpolate env self alpha st =
     (let alpha' = min (max alpha 0) 1
      in interpolate_mobject env self (rate_func self alpha') st)"

definition Animation_begin ::
  "'w env \<Rightarrow> 'a animation_scheme \<Rightarrow> 'w state \<Rightarrow> 'a animation_scheme \<times> 'w state" where
  "Animation_begin env self st =
     (let (start, st1) = create_starting_mobject env self st;
          self1 = self\<lparr>starting_mobject := start\<rparr>;
          st2 = (if suspend_mobject_updating self1
                 then perform env (Suspend_updating (mobject self1)) st1
                 else st1)
      in (self1, interpolate env self1 0 st2))"

text \<open>
  \<^verbatim>\<open>finish\<close>. The attribute \<^verbatim>\<open>mobject\<close> is never \<^verbatim>\<open>None\<close> after \<^verbatim>\<open>__init__\<close>, so the test
  \<^verbatim>\<open>self.mobject is not None\<close> is true.
\<close>

definition finish :: "'w env \<Rightarrow> 'a animation_scheme \<Rightarrow> 'w state \<Rightarrow> 'w state" where
  "finish env self st =
     (let st1 = interpolate env self 1 st
      in if suspend_mobject_updating self \<and> True
         then perform env (Resume_updating (mobject self)) st1
         else st1)"

definition is_remover :: "'a animation_scheme \<Rightarrow> bool" where
  "is_remover self = remover self"

definition clean_up_from_scene ::
  "'w env \<Rightarrow> 'a animation_scheme \<Rightarrow> ref \<Rightarrow> 'w state \<Rightarrow> 'w state" where
  "clean_up_from_scene env self scene st =
     (if is_remover self then perform env (Scene_remove scene (mobject self)) st else st)"

subsection \<open>\<^verbatim>\<open>prepare_animation\<close>\<close>

text \<open>
  \<open>build\<close> and \<open>build_opengl\<close> are the \<^verbatim>\<open>build()\<close> methods of the two builder classes.
  The message of the error is the f-string with \<^verbatim>\<open>str(anim)\<close> in it.
\<close>

definition prepare_animation ::
  "('b \<Rightarrow> 'a) \<Rightarrow> ('c \<Rightarrow> 'a) \<Rightarrow> ('a, 'b, 'c) anim_input \<Rightarrow> error + 'a" where
  "prepare_animation build build_opengl anim =
     (case anim of
        Builder_input b \<Rightarrow> Inr (build b)
      | OpenGL_builder_input b \<Rightarrow> Inr (build_opengl b)
      | Animation_input a \<Rightarrow> Inr a
      | Other_input s \<Rightarrow>
          Inl (TypeError (''Object '' @ s @ '' cannot be converted to an animation'')))"

subsection \<open>\<^verbatim>\<open>Wait\<close>\<close>

text \<open>The five methods that \<^verbatim>\<open>Wait\<close> overrides; the body of each is \<^verbatim>\<open>pass\<close>.\<close>

definition Wait_begin :: "'w env \<Rightarrow> 'a wait_scheme \<Rightarrow> 'w state \<Rightarrow> 'a wait_scheme \<times> 'w state" where
  "Wait_begin env self st = (self, st)"

definition Wait_finish :: "'w env \<Rightarrow> 'a wait_scheme \<Rightarrow> 'w state \<Rightarrow> 'w state" where
  "Wait_finish env self st = st"

definition Wait_clean_up_from_scene ::
  "'w env \<Rightarrow> 'a wait_scheme \<Rightarrow> ref \<Rightarrow> 'w state \<Rightarrow> 'w state" where
  "Wait_clean_up_from_scene env self scene st = st"

definition Wait_update_mobjects ::
  "'w env \<Rightarrow> 'a wait_scheme \<Rightarrow> real \<Rightarrow> 'w state \<Rightarrow> 'w state" where
  "Wait_update_mobjects env self dt st = st"

definition Wait_interpolate :: "'w env \<Rightarrow> 'a wait_scheme \<Rightarrow> real \<Rightarrow> 'w state \<Rightarrow> 'w state" where
  "Wait_interpolate env self alpha st = st"

subsection \<open>Notions of the specification\<close>

text \<open>\<open>clamp x lo hi\<close> as the specification uses it: \<open>x\<close> limited to the interval from \<open>lo\<close> to \<open>hi\<close>.\<close>

definition clamp :: "real \<Rightarrow> real \<Rightarrow> real \<Rightarrow> real" where
  "clamp x lo hi = (if x < lo then lo else if hi < x then hi else x)"

text \<open>The calls that an operation added to the trace of the state it started from.\<close>

definition new_calls :: "'w state \<Rightarrow> 'w state \<Rightarrow> call list" where
  "new_calls st st' = drop (length (trace st)) (trace st')"


definition is_hook_call :: "call \<Rightarrow> bool" where
  "is_hook_call c = (case c of Interpolate_submobject m s a \<Rightarrow> True | _ \<Rightarrow> False)"

section \<open>Properties\<close>

subsection \<open>Auxiliary facts\<close>

lemma trace_perform: "trace (perform env c st) = trace st @ [c]"
  by (simp add: perform_def)

lemma world_perform: "world (perform env c st) = effect env c (world st)"
  by (simp add: perform_def)


lemma trace_interpolate_mobject_loop:
  "trace (interpolate_mobject_loop env self alpha n ps st) =
     trace st @ map (\<lambda>(i, m, s). Interpolate_submobject m s (get_sub_alpha self alpha (int i) n)) ps"
  by (induction ps arbitrary: st)
     (auto simp: interpolate_submobject_def trace_perform)

lemma trace_interpolate_mobject:
  "trace (interpolate_mobject env self alpha st) =
     trace st @ map (\<lambda>(i, m, s). Interpolate_submobject m s
                       (get_sub_alpha self alpha (int i)
                          (int (length (get_all_families_zipped env self st)))))
                  (enumerate 0 (get_all_families_zipped env self st))"
  by (simp add: interpolate_mobject_def Let_def trace_interpolate_mobject_loop)


lemma new_calls_interpolate_mobject:
  "new_calls st (interpolate_mobject env self alpha st) =
     map (\<lambda>(i, m, s). Interpolate_submobject m s
            (get_sub_alpha self alpha (int i)
               (int (length (get_all_families_zipped env self st)))))
       (enumerate 0 (get_all_families_zipped env self st))"
  by (simp add: new_calls_def trace_interpolate_mobject)

lemma new_calls_interpolate:
  "new_calls st (interpolate env self alpha st) =
     new_calls st (interpolate_mobject env self (rate_func self (min (max alpha 0) 1)) st)"
  by (simp add: interpolate_def Let_def)

lemma hook_calls_interpolate_mobject:
  "list_all is_hook_call (new_calls st (interpolate_mobject env self alpha st))"
  by (auto simp: new_calls_interpolate_mobject list_all_iff is_hook_call_def)


subsection \<open>The local alpha of a family member\<close>

text \<open>
  C1. For every eased alpha, index \<open>i\<close> and family size \<open>n\<close>, \<open>get_sub_alpha\<close> is
  \<open>alpha * ((n - 1) * lag_ratio + 1) - i * lag_ratio\<close> clamped to the unit interval.
\<close>

theorem get_sub_alpha_clamp:
  "get_sub_alpha self alpha i n =
     clamp (alpha * ((real_of_int n - 1) * lag_ratio self + 1) - real_of_int i * lag_ratio self) 0 1"
  by (simp add: get_sub_alpha_def clamp_def Let_def min_def max_def)





subsection \<open>Interpolation\<close>

text \<open>
  C4. For every real alpha, \<open>interpolate\<close> hands \<open>rate_func\<close> of the alpha clamped to the
  unit interval to \<open>interpolate_mobject\<close>; so \<open>interpolate\<close> at alpha and at the clamped
  alpha are the same.
\<close>

theorem interpolate_clamps_alpha:
  "interpolate env self alpha st =
     interpolate_mobject env self (rate_func self (clamp alpha 0 1)) st \<and>
   interpolate env self alpha st = interpolate env self (clamp alpha 0 1) st"
  by (simp add: interpolate_def clamp_def Let_def min_def max_def)

text \<open>
  C9. When the zipped families are empty, \<open>interpolate_mobject\<close> leaves the state as it
  is for every alpha, and it calls the hook not once. (The function has no error result:
  nothing in it raises, and \<open>get_sub_alpha\<close> does not divide.)
\<close>

theorem interpolate_mobject_empty_family:
  assumes "get_all_families_zipped env self st = []"
  shows "interpolate_mobject env self alpha st = st \<and>
         new_calls st (interpolate_mobject env self alpha st) = []"
  using assms by (simp add: interpolate_mobject_def Let_def new_calls_def)

theorem interpolate_mobject_empty_family_witness:
  "get_all_families_zipped
     \<lparr>family_members_with_points = (\<lambda>m w. if m = 0 then [0, 2] else []),
      new_ref = (\<lambda>w. 5), effect = (\<lambda>c w. Suc w)\<rparr>
     \<lparr>run_time = 1, rate_func = id, name = None, remover = False,
      suspend_mobject_updating = True, lag_ratio = 1/2, starting_mobject = 1, mobject = 0\<rparr>
     \<lparr>world = 0::nat, trace = []\<rparr> = [] \<and>
   interpolate_mobject
     \<lparr>family_members_with_points = (\<lambda>m w. if m = 0 then [0, 2] else []),
      new_ref = (\<lambda>w. 5), effect = (\<lambda>c w. Suc w)\<rparr>
     \<lparr>run_time = 1, rate_func = id, name = None, remover = False,
      suspend_mobject_updating = True, lag_ratio = 1/2, starting_mobject = 1, mobject = 0\<rparr>
     (1/2) \<lparr>world = 0::nat, trace = []\<rparr> = \<lparr>world = 0::nat, trace = []\<rparr>"
  using interpolate_mobject_empty_family
    [of "\<lparr>family_members_with_points = (\<lambda>m w. if m = 0 then [0, 2] else []),
          new_ref = (\<lambda>w. 5), effect = (\<lambda>c w. Suc w)\<rparr>"
        "\<lparr>run_time = 1, rate_func = id, name = None, remover = False,
          suspend_mobject_updating = True, lag_ratio = 1/2, starting_mobject = 1, mobject = 0\<rparr>"
        "\<lparr>world = 0::nat, trace = []\<rparr>" "1/2"]
  by (simp add: get_all_families_zipped_def get_all_mobjects_def)



subsection \<open>The life cycle\<close>

text \<open>
  C6. \<^verbatim>\<open>__init__\<close> raises the \<^verbatim>\<open>TypeError\<close> if and only if the target is neither \<^verbatim>\<open>None\<close> nor
  an instance of \<^verbatim>\<open>Mobject\<close> or \<^verbatim>\<open>OpenGLMobject\<close>; for every other target it returns an
  animation.
\<close>

theorem Animation_init_TypeError_iff:
  "(Animation_init env mob lag run rf nm rem susp kwargs has_CONFIG st =
      Inl (TypeError ''Animation only works on Mobjects'')) =
     (mob \<noteq> None_target \<and> \<not> isinstance_Mobject mob \<and> \<not> isinstance_OpenGLMobject mob) \<and>
   isl (Animation_init env mob lag run rf nm rem susp kwargs has_CONFIG st) =
     (mob \<noteq> None_target \<and> \<not> isinstance_Mobject mob \<and> \<not> isinstance_OpenGLMobject mob)"
  by (cases mob)
     (simp_all add: Animation_init_def typecheck_input_def isinstance_Mobject_def
        isinstance_OpenGLMobject_def Let_def split: prod.splits)

text \<open>
  C7. \<open>finish\<close> is \<open>interpolate\<close> at 1, followed by the call that resumes the updating of
  the mobject exactly when \<open>suspend_mobject_updating\<close> is set. The calls of the
  interpolation are calls of the hook only, so the resuming call is the last call of
  \<open>finish\<close> and its only call of that kind.
\<close>

theorem finish_interpolate_then_resume:
  "finish env self st =
     (if suspend_mobject_updating self
      then perform env (Resume_updating (mobject self)) (interpolate env self 1 st)
      else interpolate env self 1 st) \<and>
   new_calls st (finish env self st) =
     new_calls st (interpolate env self 1 st) @
       (if suspend_mobject_updating self then [Resume_updating (mobject self)] else []) \<and>
   list_all is_hook_call (new_calls st (interpolate env self 1 st)) \<and>
   (Resume_updating r \<in> set (new_calls st (finish env self st))) =
     (suspend_mobject_updating self \<and> r = mobject self)"
proof -
  have len: "length (trace st) \<le> length (trace (interpolate env self 1 st))"
    by (simp add: interpolate_def Let_def trace_interpolate_mobject)
  have fin: "finish env self st =
     (if suspend_mobject_updating self
      then perform env (Resume_updating (mobject self)) (interpolate env self 1 st)
      else interpolate env self 1 st)"
    by (simp add: finish_def Let_def)
  have new: "new_calls st (finish env self st) =
     new_calls st (interpolate env self 1 st) @
       (if suspend_mobject_updating self then [Resume_updating (mobject self)] else [])"
    using len by (simp add: fin new_calls_def trace_perform)
  have hooks: "list_all is_hook_call (new_calls st (interpolate env self 1 st))"
    by (simp add: new_calls_interpolate hook_calls_interpolate_mobject)
  then have "Resume_updating r \<notin> set (new_calls st (interpolate env self 1 st))"
    by (auto simp: list_all_iff is_hook_call_def)
  then have "(Resume_updating r \<in> set (new_calls st (finish env self st))) =
     (suspend_mobject_updating self \<and> r = mobject self)"
    by (auto simp: new)
  with fin new hooks show ?thesis by blast
qed

subsection \<open>Normalising an input to an animation\<close>

text \<open>
  C5. \<open>prepare_animation\<close> returns an \<^verbatim>\<open>Animation\<close> as it is, returns what \<^verbatim>\<open>build()\<close> returns
  for a builder of either kind, and raises a \<^verbatim>\<open>TypeError\<close> whose message holds the \<^verbatim>\<open>str\<close>
  of the input for anything else.
\<close>

theorem prepare_animation_cases:
  "prepare_animation build build_opengl (Animation_input a) = Inr a \<and>
   prepare_animation build build_opengl (Builder_input b) = Inr (build b) \<and>
   prepare_animation build build_opengl (OpenGL_builder_input c) = Inr (build_opengl c) \<and>
   prepare_animation build build_opengl (Other_input s) =
     Inl (TypeError (''Object '' @ s @ '' cannot be converted to an animation''))"
  by (simp add: prepare_animation_def)

subsection \<open>Waiting\<close>

text \<open>
  C8. Each of the methods \<open>begin\<close>, \<open>finish\<close>, \<open>clean_up_from_scene\<close>, \<open>update_mobjects\<close> and
  \<open>interpolate\<close> of \<^verbatim>\<open>Wait\<close> returns the state it was given, for all its arguments: the
  attributes of the instance, the world (with the mobject and the scene in it) and the
  trace of calls are as before, so nothing was interpolated or updated.
\<close>

theorem Wait_methods_noop:
  "Wait_begin env self st = (self, st) \<and>
   Wait_finish env self st = st \<and>
   Wait_clean_up_from_scene env self scene st = st \<and>
   Wait_update_mobjects env self dt st = st \<and>
   Wait_interpolate env self alpha st = st"
  by (simp add: Wait_begin_def Wait_finish_def Wait_clean_up_from_scene_def
        Wait_update_mobjects_def Wait_interpolate_def)

end
